theory Spec2Isabelle
  imports Main
begin

section \<open>File definitions (src/FileType.ts, interface IFileType)\<close>

text \<open>
  The pack-category tags \<open>TPackTypeId\<close> come from \<open>./PackType\<close>; they are compared and
  passed on only, so a string stands for them.
\<close>

type_synonym TPackTypeId = string

text \<open>A field of type \<open>T | T[]\<close> holds either one value or an array of values.\<close>

datatype 'a one_or_many = One 'a | Many "'a list"

text \<open>\<open>Array.isArray(x) ? x : [x]\<close> on a field that is present.\<close>

fun asArray :: "'a one_or_many \<Rightarrow> 'a list" where
  "asArray (One x) = [x]"
| "asArray (Many xs) = xs"

text \<open>
  The same expression on an optional field. For an absent field JavaScript builds
  \<open>[undefined]\<close>; \<open>get\<close> reads that array only under \<open>hasScope\<close> or
  \<open>hasMatcher\<close>, which are false for an absent field, so the value standing for it here is
  never read.
\<close>

fun toArray :: "'a one_or_many option \<Rightarrow> 'a list" where
  "toArray None = []"
| "toArray (Some x) = asArray x"

text \<open>
  JavaScript truthiness, as \<open>!!x\<close> and \<open>!x\<close> test it: \<open>undefined\<close> and \<open>null\<close> are
  falsy, the empty string is falsy, every array (also the empty one) is truthy.
\<close>

fun truthyString :: "string option \<Rightarrow> bool" where
  "truthyString None = False"
| "truthyString (Some s) = (s \<noteq> [])"

fun truthyField :: "string one_or_many option \<Rightarrow> bool" where
  "truthyField None = False"
| "truthyField (Some (One s)) = (s \<noteq> [])"
| "truthyField (Some (Many xs)) = True"

text \<open>\<open>s.startsWith(p)\<close> and \<open>s.endsWith(p)\<close>.\<close>

fun startsWith :: "string \<Rightarrow> string \<Rightarrow> bool" where
  "startsWith s [] = True"
| "startsWith [] (p # ps) = False"
| "startsWith (c # cs) (p # ps) = (c = p \<and> startsWith cs ps)"

definition endsWith :: "string \<Rightarrow> string \<Rightarrow> bool" where
  "endsWith s p = startsWith (rev s) (rev p)"

text \<open>\<open>s.split(c)\<close> for a one-character separator: the result is never empty.\<close>

fun split :: "char \<Rightarrow> string \<Rightarrow> string list" where
  "split c [] = [[]]"
| "split c (x # xs) =
     (if x = c then [] # split c xs
      else (case split c xs of [] \<Rightarrow> [[x]] | w # ws \<Rightarrow> (x # w) # ws))"

datatype file_kind = Json | Text | Nbt

record Detect =
  packType :: "TPackTypeId one_or_many option"
  scope :: "string one_or_many option"
  matcher :: "string one_or_many option"
  fileContent :: "string list option"
  fileExtensions :: "string list option"

record Meta =
  commandsUseSlash :: "bool option"
  language :: "string option"

text \<open>
  Of \<open>IFileType\<close> the class reads \<open>type\<close>, \<open>id\<close>, \<open>detect\<close> and \<open>meta\<close>. The other
  fields (icon, schema, types, packSpider, lightningCache, definitions, formatOnSaveCapable,
  documentation, highlighterConfiguration) are carried along unread; \<open>schema\<close>,
  \<open>packSpider\<close> and \<open>lightningCache\<close> stand for them.
\<close>

record IFileType =
  type_ft :: "file_kind option"
  id_ft :: string
  detect :: "Detect option"
  schema :: string
  packSpider :: string
  lightningCache :: string
  meta :: "Meta option"

section \<open>Collaborators\<close>

text \<open>
  \<open>ProjectConfig\<close> lives in \<open>./ProjectConfig\<close>; the class calls its
  \<open>resolvePackPath(packType | undefined, template)\<close> only, so the configuration is that
  function.
\<close>

record ProjectConfig =
  resolvePackPath :: "TPackTypeId option \<Rightarrow> string \<Rightarrow> string"

text \<open>
  The imported library functions: \<open>extname\<close> (path-browserify), \<open>isMatch\<close> (micromatch)
  and \<open>parse\<close> (json5), which raises on malformed text (\<open>None\<close>) and otherwise yields a
  value of some type \<open>'j\<close>. \<open>extname\<close> and \<open>isMatch\<close> are taken to return for every
  argument. Every function below takes the three as the parameter \<open>L\<close>.
\<close>

record 'j Libs =
  extname :: "string \<Rightarrow> string"
  isMatch :: "string \<Rightarrow> string list \<Rightarrow> bool"
  parse :: "string \<Rightarrow> 'j option"

section \<open>The class FileType\<close>

text \<open>
  The state of an instance. \<open>pluginFileTypes\<close> is a JavaScript \<open>Set\<close> of objects:
  membership is by object identity and iteration is in insertion order. The type \<open>'o\<close>
  is the type of object references (equality on \<open>'o\<close> is reference equality), and the
  set is the list of its members in insertion order.
\<close>

record 'o FileType =
  pluginFileTypes :: "'o list"
  fileTypes :: "IFileType list"
  projectConfig :: "ProjectConfig option"

definition setProjectConfig :: "ProjectConfig \<Rightarrow> 'o FileType \<Rightarrow> 'o FileType" where
  "setProjectConfig cfg this = this\<lparr>projectConfig := Some cfg\<rparr>"

subsection \<open>The plugin collection\<close>

text \<open>\<open>Set.prototype.add\<close>, \<open>delete\<close> (which reports whether it removed something) and \<open>clear\<close>.\<close>

definition set_add :: "'o \<Rightarrow> 'o list \<Rightarrow> 'o list" where
  "set_add x xs = (if x \<in> set xs then xs else xs @ [x])"

definition set_delete :: "'o \<Rightarrow> 'o list \<Rightarrow> 'o list \<times> bool" where
  "set_delete x xs = (filter (\<lambda>y. y \<noteq> x) xs, x \<in> set xs)"

text \<open>The object \<open>{ dispose: () => this.pluginFileTypes.delete(fileDef) }\<close> captures \<open>fileDef\<close>.\<close>

datatype 'o disposable = Disposable 'o

definition addPluginFileType :: "'o \<Rightarrow> 'o FileType \<Rightarrow> 'o FileType \<times> 'o disposable" where
  "addPluginFileType fileDef this =
     (this\<lparr>pluginFileTypes := set_add fileDef (pluginFileTypes this)\<rparr>, Disposable fileDef)"

fun dispose :: "'o disposable \<Rightarrow> 'o FileType \<Rightarrow> 'o FileType \<times> bool" where
  "dispose (Disposable fileDef) this =
     (case set_delete fileDef (pluginFileTypes this) of
        (members, removed) \<Rightarrow> (this\<lparr>pluginFileTypes := members\<rparr>, removed))"

definition getPluginFileTypes :: "'o FileType \<Rightarrow> 'o list" where
  "getPluginFileTypes this = pluginFileTypes this"

definition setPluginFileTypes :: "'o list \<Rightarrow> 'o FileType \<Rightarrow> 'o FileType" where
  "setPluginFileTypes fileDefs this =
     this\<lparr>pluginFileTypes := foldl (\<lambda>members fileDef. set_add fileDef members) [] fileDefs\<rparr>"

subsection \<open>prefixMatchers\<close>

text \<open>The inner and the outer loop, each pushing onto \<open>prefixed\<close>.\<close>

fun pushMatchers :: "ProjectConfig \<Rightarrow> TPackTypeId \<Rightarrow> string list \<Rightarrow> string list \<Rightarrow> string list" where
  "pushMatchers cfg pt [] prefixed = prefixed"
| "pushMatchers cfg pt (m # ms) prefixed =
     pushMatchers cfg pt ms (prefixed @ [resolvePackPath cfg (Some pt) m])"

fun pushPackTypes :: "ProjectConfig \<Rightarrow> TPackTypeId list \<Rightarrow> string list \<Rightarrow> string list \<Rightarrow> string list" where
  "pushPackTypes cfg [] ms prefixed = prefixed"
| "pushPackTypes cfg (pt # pts) ms prefixed =
     pushPackTypes cfg pts ms (pushMatchers cfg pt ms prefixed)"

definition prefixMatchers :: "ProjectConfig option \<Rightarrow> TPackTypeId list \<Rightarrow> string list \<Rightarrow> string list" where
  "prefixMatchers config packTypes matchers =
     (case config of
        None \<Rightarrow> []
      | Some cfg \<Rightarrow>
          if length packTypes = 0 then map (\<lambda>m. resolvePackPath cfg None m) matchers
          else pushPackTypes cfg packTypes matchers [])"

subsection \<open>get\<close>

text \<open>
  The value thrown by \<open>throw new Error(message)\<close>: it carries the message and nothing else.
\<close>

datatype error = Error string

definition invalidMessage :: string where
  "invalidMessage = ''Invalid file definition, no '' @ [CHR 0x22] @ ''detect'' @ [CHR 0x22] @ '' properties''"

text \<open>
  What one pass through the body of the \<open>for\<close> loop does. The last branch is
  \<open>console.log(fileType)\<close> followed by \<open>throw new Error(...)\<close>: \<open>LogAndThrow\<close> names the
  definition written to the console and the error thrown.
\<close>

datatype step = Continue | Return IFileType | LogAndThrow IFileType error

text \<open>The constants \<open>packTypes\<close>, \<open>hasScope\<close> and \<open>hasMatcher\<close> of the loop body.\<close>

definition packTypesOf :: "IFileType \<Rightarrow> TPackTypeId list" where
  "packTypesOf fileType =
     (case Option.bind (detect fileType) packType of None \<Rightarrow> [] | Some pt \<Rightarrow> asArray pt)"

definition hasScope :: "IFileType \<Rightarrow> bool" where
  "hasScope fileType = truthyField (Option.bind (detect fileType) scope)"

definition hasMatcher :: "IFileType \<Rightarrow> bool" where
  "hasMatcher fileType = truthyField (Option.bind (detect fileType) matcher)"

text \<open>The test \<open>fileExtensions && extension && !fileExtensions.includes(extension)\<close>.\<close>

definition excludedByExtension :: "string list option \<Rightarrow> string option \<Rightarrow> bool" where
  "excludedByExtension exts extension =
     (case exts of
        None \<Rightarrow> False
      | Some es \<Rightarrow> truthyString extension \<and> (case extension of None \<Rightarrow> False | Some e \<Rightarrow> e \<notin> set es))"

definition visit ::
  "'j Libs \<Rightarrow> ProjectConfig option \<Rightarrow> string option \<Rightarrow> string option \<Rightarrow> string option
     \<Rightarrow> IFileType \<Rightarrow> step" where
  "visit L config filePath searchFileType extension fileType =
     (if searchFileType \<noteq> None \<and> searchFileType = Some (id_ft fileType) then Return fileType
      else if \<not> truthyString filePath then Continue
      else
        (let path = (case filePath of Some p \<Rightarrow> p | None \<Rightarrow> []);
             packTypes = packTypesOf fileType;
             scopes = toArray (Option.bind (detect fileType) scope);
             matchers = toArray (Option.bind (detect fileType) matcher)
         in if excludedByExtension (Option.bind (detect fileType) fileExtensions) extension
            then Continue
            else if hasScope fileType then
              (if list_ex (\<lambda>s. startsWith path s) (prefixMatchers config packTypes scopes)
               then Return fileType else Continue)
            else if hasMatcher fileType then
              (if isMatch L path (prefixMatchers config packTypes matchers)
               then Return fileType else Continue)
            else LogAndThrow fileType (Error invalidMessage)))"

text \<open>
  The loop: the first pass that returns or throws ends it; falling off the end is
  \<open>undefined\<close>. The result is what the run wrote to the console, and what it returned
  (\<open>Inr\<close>) or threw (\<open>Inl\<close>).
\<close>

fun scan ::
  "(IFileType \<Rightarrow> step) \<Rightarrow> IFileType list \<Rightarrow> IFileType list \<times> (error + IFileType option)" where
  "scan body [] = ([], Inr None)"
| "scan body (fileType # rest) =
     (case body fileType of
        Return r \<Rightarrow> ([], Inr (Some r))
      | LogAndThrow logged e \<Rightarrow> ([logged], Inl e)
      | Continue \<Rightarrow> scan body rest)"

text \<open>\<open>const extension = filePath ? extname(filePath) : null\<close>.\<close>

definition extensionOf :: "'j Libs \<Rightarrow> string option \<Rightarrow> string option" where
  "extensionOf L filePath =
     (if truthyString filePath
      then (case filePath of Some p \<Rightarrow> Some (extname L p) | None \<Rightarrow> None)
      else None)"

definition getLogged ::
  "'j Libs \<Rightarrow> 'o FileType \<Rightarrow> string option \<Rightarrow> string option
     \<Rightarrow> IFileType list \<times> (error + IFileType option)" where
  "getLogged L this filePath searchFileType =
     scan (visit L (projectConfig this) filePath searchFileType (extensionOf L filePath))
       (fileTypes this)"

text \<open>What a call of \<open>get\<close> returns or throws, and what it writes to the console.\<close>

definition get ::
  "'j Libs \<Rightarrow> 'o FileType \<Rightarrow> string option \<Rightarrow> string option \<Rightarrow> error + IFileType option" where
  "get L this filePath searchFileType = snd (getLogged L this filePath searchFileType)"

definition getConsole ::
  "'j Libs \<Rightarrow> 'o FileType \<Rightarrow> string option \<Rightarrow> string option \<Rightarrow> IFileType list" where
  "getConsole L this filePath searchFileType = fst (getLogged L this filePath searchFileType)"

subsection \<open>getIds\<close>

fun pushIds :: "IFileType list \<Rightarrow> string list \<Rightarrow> string list" where
  "pushIds [] ids = ids"
| "pushIds (fileType # rest) ids = pushIds rest (ids @ [id_ft fileType])"

definition getIds :: "'o FileType \<Rightarrow> string list" where
  "getIds this = pushIds (fileTypes this) []"

subsection \<open>guessFolder\<close>

text \<open>
  The file handle: \<open>name\<close>, and \<open>getFile()\<close> giving a promise of a file whose
  \<open>text()\<close> gives a promise of its content. A promise either resolves or rejects.
\<close>

datatype 'a promise = Resolved 'a | Rejected

record File =
  file_text :: "string promise"

record FileHandle =
  name :: string
  getFile :: "File promise"

text \<open>
  \<open>guessFolder\<close> is asynchronous: it resolves to a path or to \<open>null\<close>, or it rejects, with
  the \<open>TypeError\<close> of calling \<open>endsWith\<close> on \<open>undefined\<close> or with the rejection of
  \<open>getFile()\<close>, which is awaited outside the \<open>try\<close> block.
\<close>

datatype guess_failure = TypeError | GetFileRejected

text \<open>
  The helper \<open>getStartPath\<close>: \<open>scope[0]\<close> of an empty array is \<open>undefined\<close>, and so is an
  absent scope.
\<close>

fun getStartPath :: "string one_or_many option \<Rightarrow> guess_failure + string" where
  "getStartPath None = Inl TypeError"
| "getStartPath (Some (Many [])) = Inl TypeError"
| "getStartPath (Some (Many (startPath # rest))) =
     Inr (if \<not> endsWith startPath ''/'' then startPath @ ''/'' else startPath)"
| "getStartPath (Some (One startPath)) =
     Inr (if \<not> endsWith startPath ''/'' then startPath @ ''/'' else startPath)"

text \<open>The default \<open>detect = {}\<close> of the destructuring patterns.\<close>

definition emptyDetect :: Detect where
  "emptyDetect = \<lparr>packType = None, scope = None, matcher = None, fileContent = None,
                   fileExtensions = None\<rparr>"

definition detectOrEmpty :: "IFileType \<Rightarrow> Detect" where
  "detectOrEmpty fileType = (case detect fileType of None \<Rightarrow> emptyDetect | Some d \<Rightarrow> d)"

text \<open>The first loop: \<open>None\<close> when it ends without returning.\<close>

fun guessByExtension :: "string \<Rightarrow> IFileType list \<Rightarrow> (guess_failure + string) option" where
  "guessByExtension extension [] = None"
| "guessByExtension extension (fileType # rest) =
     (let d = detectOrEmpty fileType
      in if \<not> truthyField (scope d) then guessByExtension extension rest
         else if (case fileExtensions d of None \<Rightarrow> False | Some es \<Rightarrow> extension \<in> set es)
         then Some (getStartPath (scope d))
         else guessByExtension extension rest)"

text \<open>
  The second loop. The check of the parsed content is commented out in the source, so
  the loop does not take the parsed value.
\<close>

fun guessByContent :: "IFileType list \<Rightarrow> guess_failure + string option" where
  "guessByContent [] = Inr None"
| "guessByContent (fileType # rest) =
     (if (case type_ft fileType of None \<Rightarrow> False | Some t \<Rightarrow> t \<noteq> Json)
      then guessByContent rest
      else
        (let d = detectOrEmpty fileType
         in if \<not> truthyField (scope d) \<or> fileContent d = None then guessByContent rest
            else (case getStartPath (scope d) of
                    Inl e \<Rightarrow> Inl e
                  | Inr startPath \<Rightarrow> Inr (Some startPath))))"

text \<open>\<open>`.${fileHandle.name.split('.').pop()!}`\<close>.\<close>

definition nameExtension :: "string \<Rightarrow> string" where
  "nameExtension fileName = ''.'' @ last (split (CHR ''.'') fileName)"

definition guessFolder :: "'j Libs \<Rightarrow> 'o FileType \<Rightarrow> FileHandle \<Rightarrow> guess_failure + string option" where
  "guessFolder L this fileHandle =
     (let extension = nameExtension (name fileHandle)
      in case guessByExtension extension (fileTypes this) of
           Some (Inl e) \<Rightarrow> Inl e
         | Some (Inr startPath) \<Rightarrow> Inr (Some startPath)
         | None \<Rightarrow>
             if \<not> endsWith (name fileHandle) ''.json'' then Inr None
             else
               (case getFile fileHandle of
                  Rejected \<Rightarrow> Inl GetFileRejected
                | Resolved file \<Rightarrow>
                    (case file_text file of
                       Rejected \<Rightarrow> Inr None
                     | Resolved content \<Rightarrow>
                         (case parse L content of
                            None \<Rightarrow> Inr None
                          | Some json \<Rightarrow> guessByContent (fileTypes this)))))"

subsection \<open>getId and isJsonFile\<close>

text \<open>An error thrown by \<open>get\<close> passes through both.\<close>

definition getId :: "'j Libs \<Rightarrow> 'o FileType \<Rightarrow> string \<Rightarrow> error + string" where
  "getId L this filePath =
     (case get L this (Some filePath) None of
        Inl f \<Rightarrow> Inl f
      | Inr None \<Rightarrow> Inr ''unknown''
      | Inr (Some fileType) \<Rightarrow> Inr (id_ft fileType))"

definition isJsonFile :: "'j Libs \<Rightarrow> 'o FileType \<Rightarrow> string \<Rightarrow> error + bool" where
  "isJsonFile L this filePath =
     (case get L this (Some filePath) None of
        Inl f \<Rightarrow> Inl f
      | Inr found \<Rightarrow>
          (let lang = Option.bind (Option.bind found meta) language
           in Inr (if truthyString lang then lang = Some ''json''
                   else endsWith filePath ''.json'')))"

section \<open>Notions the properties are stated with\<close>

text \<open>
  What the loop body of \<open>get\<close> decides for one definition when a path and no identifier
  is given: the definition matches structurally when the body returns it, and resolution
  aborts on it when the body throws.
\<close>

definition detection :: "'j Libs \<Rightarrow> ProjectConfig option \<Rightarrow> string \<Rightarrow> IFileType \<Rightarrow> step" where
  "detection L config path fileType =
     visit L config (Some path) None (extensionOf L (Some path)) fileType"

definition structurallyMatches :: "'j Libs \<Rightarrow> ProjectConfig option \<Rightarrow> string \<Rightarrow> IFileType \<Rightarrow> bool" where
  "structurallyMatches L config path fileType = (detection L config path fileType = Return fileType)"

definition abortsOn :: "'j Libs \<Rightarrow> ProjectConfig option \<Rightarrow> string \<Rightarrow> IFileType \<Rightarrow> bool" where
  "abortsOn L config path fileType =
     (case detection L config path fileType of
        LogAndThrow logged e \<Rightarrow> True | Return r \<Rightarrow> False | Continue \<Rightarrow> False)"

text \<open>
  A definition lacks a scope, or a matcher, when the field is absent or holds the empty
  string.
\<close>

definition lacksField :: "string one_or_many option \<Rightarrow> bool" where
  "lacksField field = (field = None \<or> field = Some (One []))"





section \<open>Sample data\<close>

text \<open>
  Stand-ins for the collaborators on the sample inputs below. \<open>sampleExtname\<close> follows
  path-browserify: the text from the last dot of the last path segment (trailing
  separators dropped), empty when the segment has no dot, begins with its last dot, or is
  \<open>..\<close>. \<open>sampleIsMatch\<close> knows patterns without glob characters only, which match
  themselves; \<open>sampleParse\<close> knows the text \<open>{}\<close> only. The project of \<open>sampleConfig\<close> has
  an empty base path and names each pack root after its category.
\<close>

definition sampleExtname :: "string \<Rightarrow> string" where
  "sampleExtname path =
     (let trimmed = dropWhile (\<lambda>c. c = CHR ''/'') (rev path);
          base = rev (takeWhile (\<lambda>c. c \<noteq> CHR ''/'') trimmed);
          ext = rev (takeWhile (\<lambda>c. c \<noteq> CHR ''.'') (rev base));
          stem = take (length base - length ext - 1) base
      in if CHR ''.'' \<notin> set base \<or> stem = [] \<or> base = ''..'' then []
         else CHR ''.'' # ext)"

definition sampleIsMatch :: "string \<Rightarrow> string list \<Rightarrow> bool" where
  "sampleIsMatch path patterns = (path \<in> set patterns)"

definition sampleParse :: "string \<Rightarrow> unit option" where
  "sampleParse content = (if content = ''{}'' then Some () else None)"

definition sampleLibs :: "unit Libs" where
  "sampleLibs = \<lparr>extname = sampleExtname, isMatch = sampleIsMatch, parse = sampleParse\<rparr>"

definition sampleConfig :: ProjectConfig where
  "sampleConfig =
     \<lparr>resolvePackPath = (\<lambda>category template.
         case category of None \<Rightarrow> template | Some c \<Rightarrow> c @ ''/'' @ template)\<rparr>"

definition fileDef :: "string \<Rightarrow> Detect option \<Rightarrow> IFileType" where
  "fileDef i d =
     \<lparr>type_ft = None, id_ft = i, detect = d, schema = [], packSpider = [],
      lightningCache = [], meta = None\<rparr>"

text \<open>\<open>{id: 'a', detect: {scope: 'packs/behavior', fileExtensions: ['.json']}}\<close>\<close>

definition defA :: IFileType where
  "defA = fileDef ''a''
     (Some (emptyDetect\<lparr>scope := Some (One ''packs/behavior''),
                         fileExtensions := Some [''.json'']\<rparr>))"

text \<open>\<open>{id: 'c', detect: {scope: ['packs']}}\<close>\<close>

definition defC :: IFileType where
  "defC = fileDef ''c'' (Some (emptyDetect\<lparr>scope := Some (Many [''packs''])\<rparr>))"

text \<open>\<open>{id: 'bad'}\<close>: no \<open>detect\<close> at all.\<close>

definition defBad :: IFileType where
  "defBad = fileDef ''bad'' None"

text \<open>\<open>{id: 'loot', type: 'json', detect: {scope: 'packs/behavior/loot_tables', fileContent: ['pools']}}\<close>\<close>

definition defLoot :: IFileType where
  "defLoot = (fileDef ''loot''
     (Some (emptyDetect\<lparr>scope := Some (One ''packs/behavior/loot_tables''),
                         fileContent := Some [''pools'']\<rparr>)))\<lparr>type_ft := Some Json\<rparr>"

text \<open>\<open>{id: 'lang', detect: {scope: 'texts'}, meta: {language: 'plaintext'}}\<close>\<close>

definition defLang :: IFileType where
  "defLang = (fileDef ''lang'' (Some (emptyDetect\<lparr>scope := Some (One ''texts'')\<rparr>)))
     \<lparr>meta := Some \<lparr>commandsUseSlash = None, language = Some ''plaintext''\<rparr>\<rparr>"

text \<open>\<open>{id: 'bare', detect: {}}\<close>\<close>

definition defBare :: IFileType where
  "defBare = fileDef ''bare'' (Some emptyDetect)"

text \<open>\<open>{id: 'empty', detect: {scope: []}}\<close>\<close>

definition defNoEntries :: IFileType where
  "defNoEntries = fileDef ''empty'' (Some (emptyDetect\<lparr>scope := Some (Many [])\<rparr>))"

text \<open>\<open>{id: 'hollow', detect: {scope: [], fileContent: ['pools']}}\<close>\<close>

definition defHollow :: IFileType where
  "defHollow = fileDef ''hollow''
     (Some (emptyDetect\<lparr>scope := Some (Many []), fileContent := Some [''pools'']\<rparr>))"

text \<open>An instance with the given built-in sequence, object references being numbers.\<close>

definition sampleFileType :: "IFileType list \<Rightarrow> nat FileType" where
  "sampleFileType defs =
     \<lparr>pluginFileTypes = [], fileTypes = defs, projectConfig = Some sampleConfig\<rparr>"

section \<open>Facts about strings\<close>

text \<open>
  \<open>split\<close> never gives the empty array, so \<open>pop()\<close> in \<open>nameExtension\<close> has an element
  to give; and for a name ending in \<open>.json\<close> the extension computed from the name is
  \<open>.json\<close>.
\<close>

lemma split_not_empty: "split c s \<noteq> []"
  by (induction s) (auto split: list.splits)

lemma split_no_separator: "c \<notin> set w \<Longrightarrow> split c w = [w]"
  by (induction w) auto

lemma last_split_append:
  "last (split c (xs @ c # w)) = last (split c w)"
proof (induction xs)
  case Nil
  show ?case by (simp add: split_not_empty)
next
  case (Cons x xs)
  have two: "\<exists>a b bs. split c (xs @ c # w) = a # b # bs"
  proof (induction xs)
    case Nil
    then show ?case by (cases "split c w") (auto simp add: split_not_empty)
  next
    case (Cons y ys)
    then show ?case by auto
  qed
  then obtain a b bs where s: "split c (xs @ c # w) = a # b # bs" by blast
  show ?case
  proof (cases "x = c")
    case True
    then show ?thesis using Cons.IH by (simp add: split_not_empty)
  next
    case False
    then show ?thesis using Cons.IH s by simp
  qed
qed

lemma startsWith_append: "startsWith s p \<Longrightarrow> \<exists>r. s = p @ r"
  by (induction s p rule: startsWith.induct) auto

lemma endsWith_append: "endsWith s p \<Longrightarrow> \<exists>r. s = r @ p"
proof -
  assume "endsWith s p"
  then obtain r where "rev s = rev p @ r"
    unfolding endsWith_def by (blast dest: startsWith_append)
  then have "s = rev r @ p" by (metis rev_append rev_rev_ident)
  then show ?thesis by blast
qed

lemma nameExtension_json:
  assumes "endsWith fileName ''.json''"
  shows "nameExtension fileName = ''.json''"
proof -
  from assms obtain r where "fileName = r @ CHR ''.'' # ''json''"
    by (auto dest: endsWith_append)
  then have "last (split (CHR ''.'') fileName) = last (split (CHR ''.'') ''json'')"
    by (simp only: last_split_append)
  also have "\<dots> = ''json''" by (simp add: split_no_separator)
  finally show ?thesis by (simp add: nameExtension_def)
qed

section \<open>Facts about the loops\<close>

lemma scan_passed_over:
  "\<forall>x\<in>set pre. body x = Continue \<Longrightarrow> scan body (pre @ rest) = scan body rest"
  by (induction pre) simp_all

lemma scan_all_passed_over:
  "\<forall>x\<in>set defs. body x = Continue \<Longrightarrow> scan body defs = ([], Inr None)"
  by (induction defs) simp_all

lemma scan_returns:
  "snd (scan body defs) = Inr (Some d) \<Longrightarrow>
     \<exists>pre x post. defs = pre @ x # post \<and> (\<forall>y\<in>set pre. body y = Continue) \<and> body x = Return d"
proof (induction defs)
  case Nil
  then show ?case by simp
next
  case (Cons a defs)
  show ?case
  proof (cases "body a")
    case Continue
    with Cons.prems have "snd (scan body defs) = Inr (Some d)" by simp
    from Cons.IH[OF this] obtain pre x post where
      "defs = pre @ x # post" "\<forall>y\<in>set pre. body y = Continue" "body x = Return d" by blast
    with Continue have "a # defs = (a # pre) @ x # post \<and> (\<forall>y\<in>set (a # pre). body y = Continue) \<and> body x = Return d"
      by simp
    then show ?thesis by blast
  next
    case (Return r)
    with Cons.prems have "r = d" by simp
    with Return have "a # defs = [] @ a # defs \<and> (\<forall>y\<in>set []. body y = Continue) \<and> body a = Return d"
      by simp
    then show ?thesis by blast
  next
    case (LogAndThrow logged e)
    with Cons.prems show ?thesis by simp
  qed
qed

lemma visit_Return_same:
  "visit L config filePath searchFileType extension fileType = Return r \<Longrightarrow> r = fileType"
  by (simp add: visit_def Let_def split: if_splits)

lemma detection_cases:
  "\<not> structurallyMatches L config p x \<Longrightarrow> \<not> abortsOn L config p x \<Longrightarrow> detection L config p x = Continue"
  unfolding structurallyMatches_def abortsOn_def detection_def
  by (cases "visit L config (Some p) None (extensionOf L (Some p)) x")
     (auto dest: visit_Return_same)

lemma lacksField_truthy: "lacksField field = (\<not> truthyField field)"
  by (induction field rule: truthyField.induct) (simp_all add: lacksField_def)

lemma visit_other_id:
  "id_ft x \<noteq> i \<Longrightarrow> visit L config fp (Some i) ext x = visit L config fp None ext x"
  by (simp add: visit_def)

lemma getLogged_no_id:
  "getLogged L this (Some p) None = scan (detection L (projectConfig this) p) (fileTypes this)"
  unfolding getLogged_def detection_def by (rule arg_cong2[where f = scan]) auto

lemma get_no_id:
  "get L this (Some p) None = snd (scan (detection L (projectConfig this) p) (fileTypes this))"
  by (simp add: get_def getLogged_no_id)

lemma pushIds_append: "pushIds defs ids = ids @ map id_ft defs"
  by (induction defs arbitrary: ids) simp_all

lemma get_frame:
  "fileTypes a = fileTypes b \<Longrightarrow> projectConfig a = projectConfig b \<Longrightarrow>
     get L a filePath searchFileType = get L b filePath searchFileType"
  by (simp add: get_def getLogged_def)

lemma getIds_frame: "fileTypes a = fileTypes b \<Longrightarrow> getIds a = getIds b"
  by (simp add: getIds_def)

lemma guessFolder_frame:
  assumes "fileTypes a = fileTypes b"
  shows "guessFolder L a fileHandle = guessFolder L b fileHandle"
  unfolding guessFolder_def assms by (rule refl)

lemma addPluginFileType_frame:
  "fileTypes (fst (addPluginFileType d this)) = fileTypes this"
  "projectConfig (fst (addPluginFileType d this)) = projectConfig this"
  by (simp_all add: addPluginFileType_def)

lemma dispose_frame:
  "fileTypes (fst (dispose h this)) = fileTypes this"
  "projectConfig (fst (dispose h this)) = projectConfig this"
  by (cases h; simp add: set_delete_def)+

lemma setPluginFileTypes_frame:
  "fileTypes (setPluginFileTypes ds this) = fileTypes this"
  "projectConfig (setPluginFileTypes ds this) = projectConfig this"
  by (simp_all add: setPluginFileTypes_def)





section \<open>The sample data evaluated\<close>

lemmas sample_defs =
  sampleLibs_def sampleConfig_def sampleIsMatch_def sampleParse_def sampleFileType_def
  fileDef_def defA_def defC_def defBad_def defLoot_def defLang_def emptyDetect_def
  defBare_def defNoEntries_def defHollow_def

lemmas get_defs =
  get_def getConsole_def getLogged_def visit_def extensionOf_def excludedByExtension_def hasScope_def hasMatcher_def
  packTypesOf_def prefixMatchers_def detection_def structurallyMatches_def abortsOn_def

lemma sampleExtname_values:
  "sampleExtname ''packs/behavior/entities/x.json'' = ''.json''"
  "sampleExtname ''packs/behavior/entities/x.txt'' = ''.txt''"
  "sampleExtname ''packs/behavior/entities'' = []"
  "sampleExtname ''a.json'' = ''.json''"
  "sampleExtname ''texts/a.json'' = ''.json''"
  "sampleExtname ''unregistered/path/file.xyz'' = ''.xyz''"
  "sampleExtname ''packs/a.json'' = ''.json''"
  by (simp_all add: sampleExtname_def)


section \<open>Template expansion\<close>

lemma pushMatchers_append:
  "pushMatchers cfg pt ms prefixed = prefixed @ map (\<lambda>m. resolvePackPath cfg (Some pt) m) ms"
  by (induction ms arbitrary: prefixed) simp_all

lemma pushPackTypes_append:
  "pushPackTypes cfg pts ms prefixed =
     prefixed @ map (\<lambda>(pt, m). resolvePackPath cfg (Some pt) m) (List.product pts ms)"
  by (induction pts arbitrary: prefixed) (simp_all add: pushMatchers_append comp_def)

text \<open>
  C6. Without a project configuration the expansion is empty. With one, an empty category
  list gives one string per template, resolved with no category, and a non-empty category
  list gives one string per (category, template) pair, the categories in their listed order
  on the outside and the templates on the inside.
\<close>

theorem prefixMatchers_expansion:
  "prefixMatchers None packTypes matchers = []
   \<and> prefixMatchers (Some cfg) [] matchers = map (resolvePackPath cfg None) matchers
   \<and> length (prefixMatchers (Some cfg) [] matchers) = length matchers
   \<and> prefixMatchers (Some cfg) (pt # pts) matchers =
       map (\<lambda>(c, m). resolvePackPath cfg (Some c) m) (List.product (pt # pts) matchers)
   \<and> length (prefixMatchers (Some cfg) (pt # pts) matchers) = length (pt # pts) * length matchers"
  unfolding prefixMatchers_def
  by (simp add: pushPackTypes_append pushMatchers_append del: pushPackTypes.simps)

section \<open>Resolution\<close>




text \<open>
  C2 (extension filter). A definition that declares \<open>fileExtensions\<close> is never returned
  by \<open>get(path)\<close> when the extension of the path is non-empty and not in the list.
\<close>

theorem extension_filter:
  assumes "Option.bind (detect d) fileExtensions = Some es"
      and "extname L p \<noteq> []"
      and "extname L p \<notin> set es"
  shows "get L this (Some p) None \<noteq> Inr (Some d)"
proof
  assume "get L this (Some p) None = Inr (Some d)"
  then obtain x where "detection L (projectConfig this) p x = Return d"
    unfolding get_no_id by (blast dest: scan_returns)
  then have ret: "detection L (projectConfig this) p d = Return d"
    unfolding detection_def by (frule_tac visit_Return_same) simp
  have "detection L (projectConfig this) p d = Continue"
    using assms by (simp add: detection_def visit_def excludedByExtension_def extensionOf_def Let_def)
  with ret show False by simp
qed

theorem extension_filter_witness:
  "Option.bind (detect defA) fileExtensions = Some [''.json'']
   \<and> extname sampleLibs ''packs/behavior/entities/x.txt'' = ''.txt''
   \<and> get sampleLibs (sampleFileType [defA]) (Some ''packs/behavior/entities/x.txt'') None
       \<noteq> Inr (Some defA)"
proof -
  have e: "Option.bind (detect defA) fileExtensions = Some [''.json'']"
    by (simp add: sample_defs)
  have x: "extname sampleLibs ''packs/behavior/entities/x.txt'' = ''.txt''"
    by (simp add: sampleLibs_def sampleExtname_values)
  show ?thesis
    using extension_filter[OF e, of sampleLibs "''packs/behavior/entities/x.txt''" "sampleFileType [defA]"] e x
    by simp
qed

text \<open>
  A path without an extension is not filtered: \<open>extname\<close> gives the empty string, the
  guard \<open>extension &&\<close> is false, and the definition is returned although the (empty)
  extension is not in its list.
\<close>

theorem extension_filter_counterexample:
  "Option.bind (detect defA) fileExtensions = Some [''.json'']
   \<and> extname sampleLibs ''packs/behavior/entities'' = []
   \<and> extname sampleLibs ''packs/behavior/entities'' \<notin> set [''.json'']
   \<and> get sampleLibs (sampleFileType [defA]) (Some ''packs/behavior/entities'') None
       = Inr (Some defA)"
  by (simp add: get_defs sample_defs sampleExtname_values)

text \<open>
  C3 (identity override). \<open>get(path, id)\<close> returns the first definition with the
  requested identifier, without consulting its own detection rules, provided that no
  definition before it structurally matches the path or aborts resolution; with no path
  (or the empty path) nothing before it can do so.
\<close>

theorem get_by_id:
  assumes "fileTypes this = pre @ d # post"
      and "id_ft d = i"
      and "\<forall>x\<in>set pre. id_ft x \<noteq> i
             \<and> (\<forall>p. filePath = Some p \<longrightarrow>
                   \<not> structurallyMatches L (projectConfig this) p x
                   \<and> \<not> abortsOn L (projectConfig this) p x)"
  shows "get L this filePath (Some i) = Inr (Some d)"
proof -
  let ?body = "visit L (projectConfig this) filePath (Some i) (extensionOf L filePath)"
  have "?body x = Continue" if "x \<in> set pre" for x
  proof (cases filePath)
    case None
    with that assms(3) show ?thesis by (auto simp add: visit_def)
  next
    case (Some p)
    with that assms(3) have "detection L (projectConfig this) p x = Continue"
      by (simp add: detection_cases)
    moreover have "id_ft x \<noteq> i" using that assms(3) by simp
    ultimately show ?thesis using Some by (simp add: visit_other_id detection_def)
  qed
  then have "scan ?body (pre @ d # post) = scan ?body (d # post)"
    by (simp add: scan_passed_over)
  also have "\<dots> = ([], Inr (Some d))"
    using assms(2) by (simp add: visit_def)
  finally show ?thesis by (simp add: get_def getLogged_def assms(1))
qed

theorem get_by_id_witness:
  "get sampleLibs (sampleFileType [defLang, defA, defC])
      (Some ''packs/behavior/entities/x.json'') (Some ''a'') = Inr (Some defA)
   \<and> get sampleLibs (sampleFileType [defC, defA]) None (Some ''a'') = Inr (Some defA)"
proof -
  let ?p = "''packs/behavior/entities/x.json''"
  have 1: "\<forall>x\<in>set [defLang]. id_ft x \<noteq> ''a''
      \<and> (\<forall>p. Some ?p = Some p \<longrightarrow>
            \<not> structurallyMatches sampleLibs (projectConfig (sampleFileType [defLang, defA, defC])) p x
            \<and> \<not> abortsOn sampleLibs (projectConfig (sampleFileType [defLang, defA, defC])) p x)"
    by (simp add: get_defs sample_defs sampleExtname_values)
  have 2: "\<forall>x\<in>set [defC]. id_ft x \<noteq> ''a''
      \<and> (\<forall>p. None = Some p \<longrightarrow>
            \<not> structurallyMatches sampleLibs (projectConfig (sampleFileType [defC, defA])) p x
            \<and> \<not> abortsOn sampleLibs (projectConfig (sampleFileType [defC, defA])) p x)"
    by (simp add: sample_defs)
  have i: "id_ft defA = ''a''" by (simp add: sample_defs)
  show ?thesis
    using get_by_id[of "sampleFileType [defLang, defA, defC]" "[defLang]" defA "[defC]" "''a''"
                       "Some ?p" sampleLibs, OF _ i 1]
          get_by_id[of "sampleFileType [defC, defA]" "[defC]" defA "[]" "''a''"
                       None sampleLibs, OF _ i 2]
    by (simp add: sampleFileType_def)
qed

text \<open>
  A definition earlier in the sequence that matches the path by detection is returned
  instead of the one with the requested identifier.
\<close>

theorem get_by_id_counterexample:
  "defA \<in> set (fileTypes (sampleFileType [defC, defA]))
   \<and> id_ft defA = ''a''
   \<and> id_ft defC \<noteq> ''a''
   \<and> get sampleLibs (sampleFileType [defC, defA])
        (Some ''packs/behavior/entities/x.json'') (Some ''a'') = Inr (Some defC)"
  by (simp add: get_defs sample_defs sampleExtname_values)

text \<open>
  C4 (fatal configuration). A non-empty path is supplied. When the scan reaches a
  definition, every definition before it having been passed over, and the definition is
  not returned by the identifier check, is not skipped by the extension filter, and its
  scope and its matcher are each absent or the empty string, then resolution aborts and
  the definitions after it are not looked at: \<open>get\<close> writes the definition to the console
  and throws an error with the fixed message.
\<close>

theorem get_aborts_on_invalid:
  assumes "fileTypes this = pre @ d # post"
      and "\<forall>x\<in>set pre. visit L (projectConfig this) (Some p) searchFileType
                           (extensionOf L (Some p)) x = Continue"
      and "p \<noteq> []"
      and "searchFileType \<noteq> Some (id_ft d)"
      and "\<forall>es. Option.bind (detect d) fileExtensions = Some es
                 \<longrightarrow> extname L p = [] \<or> extname L p \<in> set es"
      and "lacksField (Option.bind (detect d) scope)"
      and "lacksField (Option.bind (detect d) matcher)"
  shows "get L this (Some p) searchFileType = Inl (Error invalidMessage)
       \<and> getConsole L this (Some p) searchFileType = [d]"
proof -
  let ?body = "visit L (projectConfig this) (Some p) searchFileType (extensionOf L (Some p))"
  have ext: "\<not> excludedByExtension (Option.bind (detect d) fileExtensions) (Some (extname L p))"
    using assms(5) by (auto simp add: excludedByExtension_def split: option.splits)
  have "scan ?body (pre @ d # post) = scan ?body (d # post)"
    using assms(2) by (rule scan_passed_over)
  also have "?body d = LogAndThrow d (Error invalidMessage)"
    using assms(3,4,6,7) ext
    by (simp add: visit_def extensionOf_def Let_def hasScope_def hasMatcher_def lacksField_truthy)
  then have "scan ?body (d # post) = ([d], Inl (Error invalidMessage))" by simp
  finally show ?thesis by (simp add: get_def getConsole_def getLogged_def assms(1))
qed

theorem get_aborts_on_invalid_witness:
  "lacksField (Option.bind (detect defBad) scope)
   \<and> lacksField (Option.bind (detect defBad) matcher)
   \<and> detection sampleLibs (Some sampleConfig) ''packs/behavior/entities/x.json'' defLang = Continue
   \<and> get sampleLibs (sampleFileType [defLang, defBad, defA])
        (Some ''packs/behavior/entities/x.json'') None = Inl (Error invalidMessage)
   \<and> getConsole sampleLibs (sampleFileType [defLang, defBad, defA])
        (Some ''packs/behavior/entities/x.json'') None = [defBad]"
proof -
  let ?p = "''packs/behavior/entities/x.json''"
  let ?R = "sampleFileType [defLang, defBad, defA]"
  have 1: "\<forall>x\<in>set [defLang]. visit sampleLibs (projectConfig ?R) (Some ?p) None
                           (extensionOf sampleLibs (Some ?p)) x = Continue"
    by (simp add: get_defs sample_defs sampleExtname_values)
  have 2: "\<forall>es. Option.bind (detect defBad) fileExtensions = Some es
             \<longrightarrow> extname sampleLibs ?p = [] \<or> extname sampleLibs ?p \<in> set es"
    by (simp add: sample_defs)
  have 3: "lacksField (Option.bind (detect defBad) scope)"
          "lacksField (Option.bind (detect defBad) matcher)"
    by (simp_all add: lacksField_def sample_defs)
  have 4: "detection sampleLibs (Some sampleConfig) ?p defLang = Continue"
    by (simp add: get_defs sample_defs sampleExtname_values)
  have "get sampleLibs ?R (Some ?p) None = Inl (Error invalidMessage)
        \<and> getConsole sampleLibs ?R (Some ?p) None = [defBad]"
    using get_aborts_on_invalid[of ?R "[defLang]" defBad "[defA]" sampleLibs ?p None, OF _ 1 _ _ 2 3]
    by (simp add: sampleFileType_def)
  with 3 4 show ?thesis by simp
qed

text \<open>
  Without these restrictions the law fails, in three ways. With the empty string as the path the
  invalid definition is passed over and nothing is thrown. A definition whose scope is the
  empty array and that has no matcher is passed over silently, and the next definition is
  returned. And the thrown error does not identify the definition: two different invalid
  definitions give the same error.
\<close>

theorem get_aborts_on_invalid_counterexample:
  "lacksField (Option.bind (detect defBad) scope)
   \<and> lacksField (Option.bind (detect defBad) matcher)
   \<and> getLogged sampleLibs (sampleFileType [defBad]) (Some []) None = ([], Inr None)
   \<and> toArray (Option.bind (detect defNoEntries) scope) = []
   \<and> Option.bind (detect defNoEntries) matcher = None
   \<and> getLogged sampleLibs (sampleFileType [defNoEntries, defA])
        (Some ''packs/behavior/entities/x.json'') None = ([], Inr (Some defA))
   \<and> defBad \<noteq> defBare
   \<and> get sampleLibs (sampleFileType [defBad]) (Some ''packs/behavior/entities/x.json'') None
       = Inl (Error invalidMessage)
   \<and> get sampleLibs (sampleFileType [defBare]) (Some ''packs/behavior/entities/x.json'') None
       = Inl (Error invalidMessage)"
  by (simp add: get_defs lacksField_def sample_defs sampleExtname_values)

section \<open>The plugin collection\<close>

text \<open>
  C5 (plugin separation). Adding a plugin definition, disposing of one and replacing the
  plugin collection leave the built-in sequence as it is, and \<open>get\<close>, \<open>getIds\<close> and
  \<open>guessFolder\<close> give the same results before and after; they give the same results for
  any plugin collection whatsoever.
\<close>

theorem plugin_separation:
  "fileTypes (fst (addPluginFileType d this)) = fileTypes this
   \<and> fileTypes (fst (dispose h this)) = fileTypes this
   \<and> fileTypes (setPluginFileTypes ds this) = fileTypes this
   \<and> get L (fst (addPluginFileType d this)) filePath searchFileType = get L this filePath searchFileType
   \<and> get L (fst (dispose h this)) filePath searchFileType = get L this filePath searchFileType
   \<and> get L (setPluginFileTypes ds this) filePath searchFileType = get L this filePath searchFileType
   \<and> get L (this\<lparr>pluginFileTypes := members\<rparr>) filePath searchFileType = get L this filePath searchFileType
   \<and> getIds (fst (addPluginFileType d this)) = getIds this
   \<and> getIds (fst (dispose h this)) = getIds this
   \<and> getIds (setPluginFileTypes ds this) = getIds this
   \<and> getIds (this\<lparr>pluginFileTypes := members\<rparr>) = getIds this
   \<and> guessFolder L (fst (addPluginFileType d this)) fileHandle = guessFolder L this fileHandle
   \<and> guessFolder L (fst (dispose h this)) fileHandle = guessFolder L this fileHandle
   \<and> guessFolder L (setPluginFileTypes ds this) fileHandle = guessFolder L this fileHandle
   \<and> guessFolder L (this\<lparr>pluginFileTypes := members\<rparr>) fileHandle = guessFolder L this fileHandle"
proof -
  note fr = addPluginFileType_frame dispose_frame setPluginFileTypes_frame
  have g: "get L (fst (addPluginFileType d this)) filePath searchFileType = get L this filePath searchFileType"
          "get L (fst (dispose h this)) filePath searchFileType = get L this filePath searchFileType"
          "get L (setPluginFileTypes ds this) filePath searchFileType = get L this filePath searchFileType"
          "get L (this\<lparr>pluginFileTypes := members\<rparr>) filePath searchFileType = get L this filePath searchFileType"
    by (rule get_frame; simp add: fr)+
  have i: "getIds (fst (addPluginFileType d this)) = getIds this"
          "getIds (fst (dispose h this)) = getIds this"
          "getIds (setPluginFileTypes ds this) = getIds this"
          "getIds (this\<lparr>pluginFileTypes := members\<rparr>) = getIds this"
    by (rule getIds_frame; simp add: fr)+
  have f: "guessFolder L (fst (addPluginFileType d this)) fileHandle = guessFolder L this fileHandle"
          "guessFolder L (fst (dispose h this)) fileHandle = guessFolder L this fileHandle"
          "guessFolder L (setPluginFileTypes ds this) fileHandle = guessFolder L this fileHandle"
          "guessFolder L (this\<lparr>pluginFileTypes := members\<rparr>) fileHandle = guessFolder L this fileHandle"
    by (rule guessFolder_frame; simp add: fr)+
  show ?thesis using g i f by (simp add: fr)
qed

text \<open>
  C7 (disposal). After \<open>addPluginFileType(d)\<close> the definition is a member. Invoking the
  returned disposer, at once or in any later state, leaves a collection that does not
  contain \<open>d\<close> and contains every other member as before, in the same order; invoked at
  once it reports a removal and gives back the collection from before the addition
  without \<open>d\<close>. Invoking the disposer a second time changes nothing and reports no
  removal.
\<close>

theorem dispose_after_add:
  "d \<in> set (getPluginFileTypes (fst (addPluginFileType d this)))
   \<and> d \<notin> set (getPluginFileTypes (fst (dispose (snd (addPluginFileType d this)) later)))
   \<and> set (getPluginFileTypes (fst (dispose (snd (addPluginFileType d this)) later)))
       = set (getPluginFileTypes later) - {d}
   \<and> getPluginFileTypes (fst (dispose (snd (addPluginFileType d this)) later))
       = filter (\<lambda>e. e \<noteq> d) (getPluginFileTypes later)
   \<and> snd (dispose (snd (addPluginFileType d this)) (fst (addPluginFileType d this)))
   \<and> getPluginFileTypes (fst (dispose (snd (addPluginFileType d this)) (fst (addPluginFileType d this))))
       = filter (\<lambda>e. e \<noteq> d) (getPluginFileTypes this)
   \<and> dispose (snd (addPluginFileType d this)) (fst (dispose (snd (addPluginFileType d this)) later))
       = (fst (dispose (snd (addPluginFileType d this)) later), False)"
  by (auto simp add: addPluginFileType_def getPluginFileTypes_def set_delete_def set_add_def)

section \<open>Placement guessing\<close>




section \<open>Accessors\<close>

text \<open>
  C9 (getId). When \<open>get(path)\<close> resolves a definition, \<open>getId(path)\<close> returns its id. When
  \<open>get(path)\<close> finds nothing, \<open>getId(path)\<close> returns \<open>'unknown'\<close>; this is so, and nothing
  is thrown, for every path that no definition of the sequence structurally matches,
  provided that no definition aborts resolution on it. When \<open>get(path)\<close> throws,
  \<open>getId(path)\<close> throws the same error.
\<close>

theorem getId_sentinel:
  "(get L this (Some p) None = Inr (Some d) \<longrightarrow> getId L this p = Inr (id_ft d))
   \<and> (get L this (Some p) None = Inr None \<longrightarrow> getId L this p = Inr ''unknown'')
   \<and> (get L this (Some p) None = Inl e \<longrightarrow> getId L this p = Inl e)
   \<and> ((\<forall>x\<in>set (fileTypes this). \<not> structurallyMatches L (projectConfig this) p x
                                 \<and> \<not> abortsOn L (projectConfig this) p x)
        \<longrightarrow> getId L this p = Inr ''unknown'')"
proof -
  have "getId L this p = Inr ''unknown''"
    if "\<forall>x\<in>set (fileTypes this). \<not> structurallyMatches L (projectConfig this) p x
                                  \<and> \<not> abortsOn L (projectConfig this) p x"
  proof -
    from that have "\<forall>x\<in>set (fileTypes this). detection L (projectConfig this) p x = Continue"
      by (simp add: detection_cases)
    then have "get L this (Some p) None = Inr None"
      by (simp add: get_no_id scan_all_passed_over)
    then show ?thesis by (simp add: getId_def)
  qed
  then show ?thesis by (simp add: getId_def)
qed

theorem getId_sentinel_witness:
  "get sampleLibs (sampleFileType [defA]) (Some ''packs/behavior/entities/x.json'') None
     = Inr (Some defA)
   \<and> getId sampleLibs (sampleFileType [defA]) ''packs/behavior/entities/x.json'' = Inr ''a''
   \<and> \<not> structurallyMatches sampleLibs (Some sampleConfig) ''unregistered/path/file.xyz'' defA
   \<and> \<not> abortsOn sampleLibs (Some sampleConfig) ''unregistered/path/file.xyz'' defA
   \<and> getId sampleLibs (sampleFileType [defA]) ''unregistered/path/file.xyz'' = Inr ''unknown''
   \<and> getId sampleLibs (sampleFileType [defBad]) ''unregistered/path/file.xyz''
       = Inl (Error invalidMessage)"
proof -
  let ?R = "sampleFileType [defA]"
  let ?q = "''unregistered/path/file.xyz''"
  have 1: "get sampleLibs ?R (Some ''packs/behavior/entities/x.json'') None = Inr (Some defA)"
    by (simp add: get_defs sample_defs sampleExtname_values)
  have 2: "\<not> structurallyMatches sampleLibs (Some sampleConfig) ?q defA"
          "\<not> abortsOn sampleLibs (Some sampleConfig) ?q defA"
    by (simp_all add: get_defs sample_defs sampleExtname_values)
  then have 3: "\<forall>x\<in>set (fileTypes ?R). \<not> structurallyMatches sampleLibs (projectConfig ?R) ?q x
                                        \<and> \<not> abortsOn sampleLibs (projectConfig ?R) ?q x"
    by (simp add: sampleFileType_def)
  have 4: "get sampleLibs (sampleFileType [defBad]) (Some ?q) None = Inl (Error invalidMessage)"
    by (simp add: get_defs sample_defs sampleExtname_values)
  have i: "id_ft defA = ''a''" by (simp add: sample_defs)
  have a: "getId sampleLibs ?R ''packs/behavior/entities/x.json'' = Inr ''a''"
    using getId_sentinel[of sampleLibs ?R "''packs/behavior/entities/x.json''" defA] 1 i by simp
  have b: "getId sampleLibs ?R ?q = Inr ''unknown''"
    using getId_sentinel[of sampleLibs ?R ?q] 3 by blast
  have c: "getId sampleLibs (sampleFileType [defBad]) ?q = Inl (Error invalidMessage)"
    using getId_sentinel[of sampleLibs "sampleFileType [defBad]" ?q _ "Error invalidMessage"] 4
    by simp
  from 1 2 a b c show ?thesis by simp
qed

text \<open>
  The proviso is needed: no definition matches the path below, and \<open>getId\<close> throws on it,
  because the only definition of the sequence has neither scope nor matcher.
\<close>

theorem getId_sentinel_counterexample:
  "\<not> structurallyMatches sampleLibs (Some sampleConfig) ''unregistered/path/file.xyz'' defBad
   \<and> getId sampleLibs (sampleFileType [defBad]) ''unregistered/path/file.xyz''
       = Inl (Error invalidMessage)
   \<and> getId sampleLibs (sampleFileType [defBad]) ''unregistered/path/file.xyz''
       \<noteq> Inr ''unknown''"
  by (simp add: getId_def get_defs sample_defs sampleExtname_values)

text \<open>
  C10 (isJsonFile). When \<open>get(path)\<close> resolves a definition that declares a (non-empty)
  \<open>meta.language\<close>, the result is whether that language is \<open>json\<close>. When it resolves
  a definition without one, or finds nothing, the result is whether the path ends in
  \<open>.json\<close>. When \<open>get(path)\<close> throws, \<open>isJsonFile(path)\<close> throws the same error.
\<close>

theorem isJsonFile_classification:
  "(get L this (Some p) None = Inr (Some d) \<and> Option.bind (meta d) language = Some l \<and> l \<noteq> []
      \<longrightarrow> isJsonFile L this p = Inr (l = ''json''))
   \<and> (get L this (Some p) None = Inr (Some d)
        \<and> (Option.bind (meta d) language = None \<or> Option.bind (meta d) language = Some [])
      \<longrightarrow> isJsonFile L this p = Inr (endsWith p ''.json''))
   \<and> (get L this (Some p) None = Inr None \<longrightarrow> isJsonFile L this p = Inr (endsWith p ''.json''))
   \<and> (get L this (Some p) None = Inl f \<longrightarrow> isJsonFile L this p = Inl f)"
  by (auto simp add: isJsonFile_def)

theorem isJsonFile_classification_witness:
  "isJsonFile sampleLibs (sampleFileType [defLang, defC]) ''texts/a.json'' = Inr False
   \<and> isJsonFile sampleLibs (sampleFileType [defLang, defC]) ''packs/a.json'' = Inr True
   \<and> isJsonFile sampleLibs (sampleFileType [defLang, defC]) ''a.json'' = Inr True
   \<and> isJsonFile sampleLibs (sampleFileType [defBad]) ''a.json'' = Inl (Error invalidMessage)"
proof -
  let ?R = "sampleFileType [defLang, defC]"
  have 1: "get sampleLibs ?R (Some ''texts/a.json'') None = Inr (Some defLang)"
    by (simp add: get_defs sample_defs sampleExtname_values)
  have l: "Option.bind (meta defLang) language = Some ''plaintext''" by (simp add: sample_defs)
  have 2: "get sampleLibs ?R (Some ''packs/a.json'') None = Inr (Some defC)"
    by (simp add: get_defs sample_defs sampleExtname_values)
  have n: "Option.bind (meta defC) language = None" by (simp add: sample_defs)
  have 3: "get sampleLibs ?R (Some ''a.json'') None = Inr None"
    by (simp add: get_defs sample_defs sampleExtname_values)
  have 4: "get sampleLibs (sampleFileType [defBad]) (Some ''a.json'') None
             = Inl (Error invalidMessage)"
    by (simp add: get_defs sample_defs sampleExtname_values)
  have s: "endsWith ''packs/a.json'' ''.json''" "endsWith ''a.json'' ''.json''"
    by (simp_all add: endsWith_def)
  show ?thesis
    using isJsonFile_classification[of sampleLibs ?R "''texts/a.json''" defLang "''plaintext''"]
          isJsonFile_classification[of sampleLibs ?R "''packs/a.json''" defC]
          isJsonFile_classification[of sampleLibs ?R "''a.json''"]
          isJsonFile_classification[of sampleLibs "sampleFileType [defBad]" "''a.json''" _ _
             "Error invalidMessage"]
          1 l 2 n 3 4 s
    by simp
qed

text \<open>
  So a boolean is not always the outcome: with an invalid definition in the sequence a
  path ending in \<open>.json\<close> is not classified.
\<close>

theorem isJsonFile_classification_counterexample:
  "get sampleLibs (sampleFileType [defBad]) (Some ''a.json'') None = Inl (Error invalidMessage)
   \<and> endsWith ''a.json'' ''.json''
   \<and> isJsonFile sampleLibs (sampleFileType [defBad]) ''a.json'' = Inl (Error invalidMessage)
   \<and> isJsonFile sampleLibs (sampleFileType [defBad]) ''a.json'' \<noteq> Inr True"
  by (simp add: isJsonFile_def get_defs sample_defs sampleExtname_values endsWith_def)

end
